theory Spec2Isabelle
  imports Main
begin

section \<open>Values of the program\<close>

text \<open>
  The module \<^verbatim>\<open>departures.py\<close> works on a parsed JSON document, that is on the Python
  objects that \<^verbatim>\<open>json.load\<close> and \<^verbatim>\<open>r.json()\<close> build: \<^verbatim>\<open>None\<close>, \<^verbatim>\<open>bool\<close>, \<^verbatim>\<open>int\<close>,
  \<^verbatim>\<open>float\<close>, \<^verbatim>\<open>str\<close>, \<^verbatim>\<open>list\<close> and \<^verbatim>\<open>dict\<close> with \<^verbatim>\<open>str\<close> keys.

  \<^item> A Python \<^verbatim>\<open>int\<close> is unbounded: \<open>int\<close>.
  \<^item> A \<^verbatim>\<open>float\<close> is a finite binary fraction \<open>m * 2 ^ e\<close>, a NaN, or an infinity
    (\<^verbatim>\<open>json.load\<close> reads \<^verbatim>\<open>NaN\<close>, \<^verbatim>\<open>Infinity\<close> and \<^verbatim>\<open>1e400\<close>).
  \<^item> A \<^verbatim>\<open>str\<close> is a \<open>string\<close>; a \<open>char\<close> stands for the code point of the same number,
    so the model covers the strings whose code points are below 256.
  \<^item> A \<^verbatim>\<open>dict\<close> is an association list in insertion order. The first binding of a key
    is the one that counts; every dictionary is denoted by the list of its items.
\<close>

datatype pyfloat = PyFinite int int | PyNaN | PyInf bool

datatype jsonval =
    JNull
  | JBool bool
  | JInt int
  | JFloat pyfloat
  | JStr string
  | JArr "jsonval list"
  | JObj "(string \<times> jsonval) list"

text \<open>The exceptions that the operations used by the module can raise. Every subclass of
  \<^verbatim>\<open>requests.exceptions.RequestException\<close> is \<open>RequestException\<close>, with the text that
  \<^verbatim>\<open>print(ex)\<close> shows.\<close>

datatype py_error =
    KeyError
  | IndexError
  | TypeError
  | ValueError
  | OverflowError
  | RecursionError
  | RequestException string

section \<open>The interpreter\<close>

text \<open>
  Two things that the module does depend on the interpreter it runs on, and are
  parameters of the model.

  \<^item> \<open>int_max_str_digits\<close>: the limit on the number of digits that \<^verbatim>\<open>int\<close> accepts in a
    string (\<^verbatim>\<open>sys.get_int_max_str_digits()\<close>: 4300 by default from CPython 3.11 on, 0 when
    the limit is off, as it is in the earlier interpreters).
  \<^item> \<open>dump_raises\<close>: whether \<^verbatim>\<open>json.dumps(resp, sort_keys=True, indent=4)\<close> of line 85
    raises on a document, and what: a \<^verbatim>\<open>RecursionError\<close> when the document is nested
    deeper than the stack allows, a \<^verbatim>\<open>ValueError\<close> when an integer of the document has
    more digits than the limit. It raises nothing else on a parsed document, and never a
    \<^verbatim>\<open>RequestException\<close>.
\<close>

datatype dump_error = DumpRecursionError | DumpValueError

fun dump_exception :: "dump_error \<Rightarrow> py_error" where
  "dump_exception DumpRecursionError = RecursionError"
| "dump_exception DumpValueError = ValueError"

record interpreter =
  int_max_str_digits :: nat
  dump_raises :: "jsonval \<Rightarrow> dump_error option"

section \<open>The Python operations the module uses\<close>

subsection \<open>Subscription and iteration\<close>

text \<open>\<^verbatim>\<open>obj[key]\<close> with a \<^verbatim>\<open>str\<close> key: only a dictionary accepts it (\<^verbatim>\<open>KeyError\<close> when the key
  is missing); a list or a string wants an integer, the other values cannot be subscripted.\<close>

fun py_getitem_str :: "jsonval \<Rightarrow> string \<Rightarrow> py_error + jsonval" where
  "py_getitem_str (JObj kvs) k =
     (case map_of kvs k of None \<Rightarrow> Inl KeyError | Some v \<Rightarrow> Inr v)"
| "py_getitem_str _ k = Inl TypeError"

text \<open>\<^verbatim>\<open>obj[0]\<close>: the first element of a list, the first character of a string
  (\<^verbatim>\<open>IndexError\<close> when empty); a dictionary of a parsed document has no integer key.\<close>

fun py_getitem_0 :: "jsonval \<Rightarrow> py_error + jsonval" where
  "py_getitem_0 (JArr []) = Inl IndexError"
| "py_getitem_0 (JArr (x # xs)) = Inr x"
| "py_getitem_0 (JStr []) = Inl IndexError"
| "py_getitem_0 (JStr (c # cs)) = Inr (JStr [c])"
| "py_getitem_0 (JObj kvs) = Inl KeyError"
| "py_getitem_0 _ = Inl TypeError"

text \<open>\<^verbatim>\<open>for x in obj\<close>: the elements of a list, the keys of a dictionary, the characters of a
  string; \<^verbatim>\<open>TypeError\<close> for a value that is not iterable. The loops of the module do not
  change what they iterate over, so the elements are taken at once.\<close>

fun py_iter :: "jsonval \<Rightarrow> py_error + jsonval list" where
  "py_iter (JArr xs) = Inr xs"
| "py_iter (JObj kvs) = Inr (map JStr (remdups (map fst kvs)))"
| "py_iter (JStr s) = Inr (map (\<lambda>c. JStr [c]) s)"
| "py_iter _ = Inl TypeError"

subsection \<open>The constructor \<^verbatim>\<open>int\<close>\<close>

text \<open>
  \<^verbatim>\<open>int(s)\<close> on a string, base 10, as CPython's \<^verbatim>\<open>PyLong_FromString\<close> reads it: white space
  around, one optional sign, then digits, where single underscores may stand between
  digits. Anything else is a \<^verbatim>\<open>ValueError\<close> (\<open>None\<close> here). White space is what
  \<^verbatim>\<open>int\<close> skips: tab, line feed, vertical tab, form feed, carriage return, space, and of
  the code points from 128 to 255 the two that are Unicode white space (133 and 160).
  With a limit \<open>lim\<close> on the number of digits, a string with more digits than 640 and
  than the limit is a \<^verbatim>\<open>ValueError\<close> too (every digit counts, also a leading zero; the
  interpreter refuses to set a limit below 640, and does not count at all up to 640).
\<close>

definition int_space :: "char \<Rightarrow> bool" where
  "int_space c \<longleftrightarrow> of_char c \<in> {9, 10, 11, 12, 13, 32, 133, 160 :: nat}"

definition is_digit :: "char \<Rightarrow> bool" where
  "is_digit c \<longleftrightarrow> 48 \<le> (of_char c :: nat) \<and> (of_char c :: nat) \<le> 57"

definition digit_val :: "char \<Rightarrow> int" where
  "digit_val c = int (of_char c) - 48"

definition dec_value :: "string \<Rightarrow> int" where
  "dec_value ds = foldl (\<lambda>a c. 10 * a + digit_val c) 0 ds"

fun double_underscore :: "string \<Rightarrow> bool" where
  "double_underscore (a # b # cs) =
     ((a = CHR ''_'' \<and> b = CHR ''_'') \<or> double_underscore (b # cs))"
| "double_underscore _ = False"

fun int_sign :: "string \<Rightarrow> int \<times> string" where
  "int_sign (c # r) =
     (if c = CHR ''+'' then (1, r)
      else if c = CHR ''-'' then (- 1, r)
      else (1, c # r))"
| "int_sign [] = (1, [])"

definition digits_allowed :: "nat \<Rightarrow> nat \<Rightarrow> bool" where
  "digits_allowed lim n \<longleftrightarrow> \<not> (640 < n \<and> 0 < lim \<and> lim < n)"

definition int_digits :: "nat \<Rightarrow> string \<Rightarrow> int option" where
  "int_digits lim s2 =
     (let body = takeWhile (\<lambda>c. is_digit c \<or> c = CHR ''_'') s2;
          rest = dropWhile (\<lambda>c. is_digit c \<or> c = CHR ''_'') s2
      in if body = [] \<or> hd body = CHR ''_'' \<or> last body = CHR ''_''
            \<or> double_underscore body \<or> \<not> list_all int_space rest
            \<or> \<not> digits_allowed lim (length (filter is_digit body))
         then None
         else Some (dec_value (filter is_digit body)))"

definition py_int_str :: "nat \<Rightarrow> string \<Rightarrow> int option" where
  "py_int_str lim s =
     (case int_sign (dropWhile int_space s) of
        (sign, s2) \<Rightarrow>
          (case int_digits lim s2 of None \<Rightarrow> None | Some n \<Rightarrow> Some (sign * n)))"

text \<open>\<^verbatim>\<open>int(x)\<close> on a float drops the fraction (towards zero); a NaN is a \<^verbatim>\<open>ValueError\<close>, an
  infinity an \<^verbatim>\<open>OverflowError\<close>.\<close>

definition py_trunc :: "int \<Rightarrow> int \<Rightarrow> int" where
  "py_trunc m e =
     (if 0 \<le> e then m * 2 ^ nat e
      else if 0 \<le> m then m div 2 ^ nat (- e)
      else - ((- m) div 2 ^ nat (- e)))"

fun py_int :: "interpreter \<Rightarrow> jsonval \<Rightarrow> py_error + int" where
  "py_int py (JStr s) =
     (case py_int_str (int_max_str_digits py) s of
        None \<Rightarrow> Inl ValueError
      | Some n \<Rightarrow> Inr n)"
| "py_int py (JInt n) = Inr n"
| "py_int py (JBool b) = Inr (if b then 1 else 0)"
| "py_int py (JFloat (PyFinite m e)) = Inr (py_trunc m e)"
| "py_int py (JFloat PyNaN) = Inl ValueError"
| "py_int py (JFloat (PyInf _)) = Inl OverflowError"
| "py_int py _ = Inl TypeError"

section \<open>The world outside: the HTTP library and the output streams\<close>

text \<open>
  The \<^verbatim>\<open>requests\<close> library is not part of the module. What the module uses of a response
  \<open>r\<close> is \<^verbatim>\<open>r.url\<close>, \<^verbatim>\<open>r.raise_for_status()\<close>, which returns or raises an \<^verbatim>\<open>HTTPError\<close>
  (a \<^verbatim>\<open>RequestException\<close>; \<open>Some msg\<close> here), and \<^verbatim>\<open>r.json()\<close>, which returns the parsed
  body or raises. Which status codes \<^verbatim>\<open>raise_for_status\<close> rejects is the library's
  decision. \<^verbatim>\<open>requests.get\<close> is a parameter of the model: a function from the URL and the
  query parameters to an exception or a response.
\<close>

record response =
  url :: string
  raise_for_status :: "string option"
  json :: "py_error + jsonval"

type_synonym requests_get = "string \<Rightarrow> (string \<times> string) list \<Rightarrow> py_error + response"

text \<open>What a call does to the outside, in order: the GET request it issues, the lines it
  prints on standard output (the text that \<^verbatim>\<open>json.dumps\<close> returns is stood for by the value
  that is dumped) and on standard error.\<close>

datatype event =
    HttpGet string "(string \<times> string) list"
  | Stdout string
  | StdoutJson jsonval
  | Stderr string

section \<open>The module\<close>

definition bartURL :: string where
  "bartURL = ''http://api.bart.gov/api/etd.aspx''"

definition reqParams :: "string \<Rightarrow> string \<Rightarrow> (string \<times> string) list" where
  "reqParams origin direction =
     [(''cmd'', ''etd''),
      (''orig'', origin),
      (''dir'', direction),
      (''key'', ''MW9S-E7SL-26DU-VV8V''),
      (''json'', ''y'')]"

text \<open>Lines 61 to 82: the response document, from the network when \<^verbatim>\<open>testcase is None\<close>,
  else the test case itself. The result carries the events so far.\<close>

definition obtain_resp ::
  "requests_get \<Rightarrow> string \<Rightarrow> string \<Rightarrow> jsonval \<Rightarrow> bool \<Rightarrow> (py_error + jsonval) \<times> event list" where
  "obtain_resp get origin direction testcase verbose =
     (if testcase = JNull then
        (case get bartURL (reqParams origin direction) of
           Inl ex \<Rightarrow> (Inl ex, [HttpGet bartURL (reqParams origin direction)])
         | Inr r \<Rightarrow>
            (case raise_for_status r of
               Some msg \<Rightarrow>
                 (Inl (RequestException msg), [HttpGet bartURL (reqParams origin direction)])
             | None \<Rightarrow>
                 (json r,
                  HttpGet bartURL (reqParams origin direction)
                    # (if verbose then [Stdout (url r)] else []))))
      else (Inr testcase, []))"

text \<open>Lines 89 to 93: \<^verbatim>\<open>resp['root']['station'][0]['etd']\<close>, and the empty list when any
  step of it raises.\<close>

definition etd_path :: "jsonval \<Rightarrow> py_error + jsonval" where
  "etd_path resp =
     (case py_getitem_str resp ''root'' of
        Inl ex \<Rightarrow> Inl ex
      | Inr root \<Rightarrow>
         (case py_getitem_str root ''station'' of
            Inl ex \<Rightarrow> Inl ex
          | Inr stations \<Rightarrow>
             (case py_getitem_0 stations of
                Inl ex \<Rightarrow> Inl ex
              | Inr station \<Rightarrow> py_getitem_str station ''etd'')))"

definition depList :: "jsonval \<Rightarrow> jsonval" where
  "depList resp = (case etd_path resp of Inl ex \<Rightarrow> JArr [] | Inr d \<Rightarrow> d)"

text \<open>Lines 97 to 101: one estimate entry. Only a \<^verbatim>\<open>ValueError\<close> is replaced by 0.\<close>

definition minutes :: "interpreter \<Rightarrow> jsonval \<Rightarrow> py_error + int" where
  "minutes py depData =
     (case py_getitem_str depData ''minutes'' of
        Inl ex \<Rightarrow> Inl ex
      | Inr v \<Rightarrow>
         (case py_int py v of
            Inl ex \<Rightarrow> (if ex = ValueError then Inr 0 else Inl ex)
          | Inr m \<Rightarrow> Inr m))"

text \<open>Lines 96 to 102: the inner loop, appending to \<open>minutesList\<close>.\<close>

fun estimate_loop :: "interpreter \<Rightarrow> jsonval list \<Rightarrow> int list \<Rightarrow> py_error + int list" where
  "estimate_loop py [] minutesList = Inr minutesList"
| "estimate_loop py (depData # rest) minutesList =
     (case minutes py depData of
        Inl ex \<Rightarrow> Inl ex
      | Inr m \<Rightarrow> estimate_loop py rest (minutesList @ [m]))"

text \<open>Lines 95 to 102: the outer loop.\<close>

fun dep_loop :: "interpreter \<Rightarrow> jsonval list \<Rightarrow> int list \<Rightarrow> py_error + int list" where
  "dep_loop py [] minutesList = Inr minutesList"
| "dep_loop py (dep # rest) minutesList =
     (case py_getitem_str dep ''estimate'' of
        Inl ex \<Rightarrow> Inl ex
      | Inr est \<Rightarrow>
         (case py_iter est of
            Inl ex \<Rightarrow> Inl ex
          | Inr entries \<Rightarrow>
             (case estimate_loop py entries minutesList of
                Inl ex \<Rightarrow> Inl ex
              | Inr minutesList' \<Rightarrow> dep_loop py rest minutesList')))"

text \<open>Lines 87 to 104: from the response document to the list.\<close>

definition collect :: "interpreter \<Rightarrow> jsonval \<Rightarrow> py_error + int list" where
  "collect py resp =
     (case py_iter (depList resp) of
        Inl ex \<Rightarrow> Inl ex
      | Inr deps \<Rightarrow> dep_loop py deps [])"

text \<open>Lines 84 and 85: with \<open>verbose\<close>, the document is dumped and printed. When
  \<^verbatim>\<open>json.dumps\<close> raises, nothing is printed and the exception goes on to the handlers of
  the outer \<^verbatim>\<open>try\<close>.\<close>

definition print_resp :: "interpreter \<Rightarrow> bool \<Rightarrow> jsonval \<Rightarrow> py_error + event list" where
  "print_resp py verbose resp =
     (if verbose then
        (case dump_raises py resp of
           Some err \<Rightarrow> Inl (dump_exception err)
         | None \<Rightarrow> Inr [StdoutJson resp])
      else Inr [])"

text \<open>Lines 60 to 104, the body of the outer \<^verbatim>\<open>try\<close>.\<close>

definition try_body ::
  "interpreter \<Rightarrow> requests_get \<Rightarrow> string \<Rightarrow> string \<Rightarrow> jsonval \<Rightarrow> bool
     \<Rightarrow> (py_error + int list) \<times> event list" where
  "try_body py get origin direction testcase verbose =
     (case obtain_resp get origin direction testcase verbose of
        (Inl ex, evs) \<Rightarrow> (Inl ex, evs)
      | (Inr resp, evs) \<Rightarrow>
          (case print_resp py verbose resp of
             Inl ex \<Rightarrow> (Inl ex, evs)
           | Inr printed \<Rightarrow> (collect py resp, evs @ printed)))"

text \<open>
  \<^verbatim>\<open>get_departures\<close>: the result is \<open>Inr (Some xs)\<close> for the list \<open>xs\<close>, \<open>Inr None\<close> for
  \<^verbatim>\<open>None\<close>, and \<open>Inl ex\<close> when the exception \<open>ex\<close> leaves the function. Only a
  \<^verbatim>\<open>RequestException\<close> is caught (lines 105 to 110).
\<close>

definition get_departures ::
  "interpreter \<Rightarrow> requests_get \<Rightarrow> string \<Rightarrow> string \<Rightarrow> jsonval \<Rightarrow> bool
     \<Rightarrow> (py_error + int list option) \<times> event list" where
  "get_departures py get origin direction testcase verbose =
     (case try_body py get origin direction testcase verbose of
        (Inl (RequestException msg), evs) \<Rightarrow>
          (Inr None,
           evs @ [Stderr ''[!] Error: could not complete the request.'', Stderr msg])
      | (Inl ex, evs) \<Rightarrow> (Inl ex, evs)
      | (Inr minutesList, evs) \<Rightarrow> (Inr (Some minutesList), evs))"

section \<open>The response document as the specification describes it\<close>

text \<open>
  The specification's data model: a root object holding a list of stations, the first
  station holding the list of estimate groups under \<open>etd\<close>, each group holding a list of
  estimate entries under \<open>estimate\<close>, each entry holding a \<open>minutes\<close> field. The
  definitions of this section follow those words; they are what the functions of the
  module are compared with.
\<close>

fun member :: "string \<Rightarrow> jsonval \<Rightarrow> jsonval option" where
  "member k (JObj kvs) = map_of kvs k"
| "member k _ = None"

text \<open>The value at the fixed schema path \<open>root/station[0]/etd\<close>, when the path is there.\<close>

definition schema_path :: "jsonval \<Rightarrow> jsonval option" where
  "schema_path doc =
     (case member ''root'' doc of
        None \<Rightarrow> None
      | Some root \<Rightarrow>
         (case member ''station'' root of
            Some (JArr (station # others)) \<Rightarrow> member ''etd'' station
          | _ \<Rightarrow> None))"

definition groups_of :: "jsonval \<Rightarrow> jsonval list" where
  "groups_of doc = (case schema_path doc of Some (JArr gs) \<Rightarrow> gs | _ \<Rightarrow> [])"

definition entries_of :: "jsonval \<Rightarrow> jsonval list" where
  "entries_of g = (case member ''estimate'' g of Some (JArr es) \<Rightarrow> es | _ \<Rightarrow> [])"

text \<open>The estimate entries of a document in traversal order: group after group, and
  within a group entry after entry.\<close>

definition estimate_entries :: "jsonval \<Rightarrow> jsonval list" where
  "estimate_entries doc = concat (map entries_of (groups_of doc))"

text \<open>An entry whose \<open>minutes\<close> field is a string, as the data model has it, and the
  integer that such an entry stands for on an interpreter with the digit limit \<open>lim\<close>:
  the integer that \<^verbatim>\<open>int\<close> reads, and 0 for a string that \<^verbatim>\<open>int\<close> rejects.\<close>

definition string_entry :: "jsonval \<Rightarrow> bool" where
  "string_entry e = (case member ''minutes'' e of Some (JStr s) \<Rightarrow> True | _ \<Rightarrow> False)"

definition entry_value :: "nat \<Rightarrow> jsonval \<Rightarrow> int" where
  "entry_value lim e =
     (case member ''minutes'' e of
        Some (JStr s) \<Rightarrow> (case py_int_str lim s of None \<Rightarrow> 0 | Some n \<Rightarrow> n)
      | _ \<Rightarrow> 0)"

definition string_group :: "jsonval \<Rightarrow> bool" where
  "string_group g =
     (case member ''estimate'' g of Some (JArr es) \<Rightarrow> list_all string_entry es | _ \<Rightarrow> False)"

text \<open>A well-formed document: the schema path leads to a list of groups, each group has
  its list of entries, and each entry has a string for \<open>minutes\<close>.\<close>

definition well_formed :: "jsonval \<Rightarrow> bool" where
  "well_formed doc =
     (case schema_path doc of
        Some (JArr gs) \<Rightarrow> list_all string_group gs
      | _ \<Rightarrow> False)"

text \<open>A numeric string in the plain sense: one decimal digit or more.\<close>

definition digits :: "string \<Rightarrow> bool" where
  "digits s \<longleftrightarrow> s \<noteq> [] \<and> list_all is_digit s"

text \<open>The GET requests among the events of a call.\<close>

fun http_requests :: "event list \<Rightarrow> (string \<times> (string \<times> string) list) list" where
  "http_requests [] = []"
| "http_requests (HttpGet u ps # evs) = (u, ps) # http_requests evs"
| "http_requests (_ # evs) = http_requests evs"

section \<open>Sample worlds, interpreters and fixtures\<close>

text \<open>A world without network: every request fails to connect.\<close>

definition offline :: requests_get where
  "offline u ps = Inl (RequestException ''Connection refused'')"

text \<open>A world in which the provider answers with the given document.\<close>

definition answering :: "jsonval \<Rightarrow> requests_get" where
  "answering doc u ps = Inr \<lparr>url = u, raise_for_status = None, json = Inr doc\<rparr>"

text \<open>A world in which the provider answers with an HTTP error.\<close>

definition refusing :: "string \<Rightarrow> requests_get" where
  "refusing msg u ps = Inr \<lparr>url = u, raise_for_status = Some msg, json = Inl ValueError\<rparr>"

text \<open>The nesting depth of a document, and an interpreter without a digit limit (as
  CPython before 3.11) whose \<^verbatim>\<open>json.dumps\<close> runs out of stack on the documents nested
  deeper than \<open>d\<close>, which is its only way to fail there.\<close>

fun depth :: "jsonval \<Rightarrow> nat" where
  "depth (JArr xs) = Suc (foldr max (map depth xs) 0)"
| "depth (JObj kvs) = Suc (foldr max (map (\<lambda>kv. depth (snd kv)) kvs) 0)"
| "depth _ = 0"

definition stack_bound :: "nat \<Rightarrow> interpreter" where
  "stack_bound d =
     \<lparr>int_max_str_digits = 0,
      dump_raises = (\<lambda>doc. if d < depth doc then Some DumpRecursionError else None)\<rparr>"

text \<open>Fixtures: \<open>fixture gs\<close> is the document whose groups have the given \<open>minutes\<close>
  values; \<open>nested_list n\<close> is a string inside \<open>n\<close> lists.\<close>

definition entry :: "jsonval \<Rightarrow> jsonval" where
  "entry v = JObj [(''minutes'', v), (''platform'', JStr ''2'')]"

definition group :: "jsonval list \<Rightarrow> jsonval" where
  "group vs = JObj [(''destination'', JStr ''Millbrae''), (''estimate'', JArr (map entry vs))]"

definition fixture :: "jsonval list list \<Rightarrow> jsonval" where
  "fixture gs =
     JObj [(''root'',
       JObj [(''uri'', JStr bartURL),
             (''station'', JArr [JObj [(''abbr'', JStr ''PLZA''), (''etd'', JArr (map group gs))]])])]"

definition fixture_3_7_leaving :: jsonval where
  "fixture_3_7_leaving = fixture [[JStr ''3'', JStr ''7''], [JStr ''Leaving'']]"

definition fixture_closed :: jsonval where
  "fixture_closed = JObj [(''root'', JObj [])]"

definition fixture_null_minutes :: jsonval where
  "fixture_null_minutes = fixture [[JStr ''4'', JNull]]"

definition fixture_minus_5 :: jsonval where
  "fixture_minus_5 = fixture [[JStr ''12''], [JStr ''-5'']]"

fun nested_list :: "nat \<Rightarrow> jsonval" where
  "nested_list 0 = JStr ''x''"
| "nested_list (Suc n) = JArr [nested_list n]"

section \<open>Lemmas about the operations\<close>

lemma getitem_str_Some: "member k x = Some v \<Longrightarrow> py_getitem_str x k = Inr v"
  by (cases x) auto

lemma getitem_str_Inr: "py_getitem_str x k = Inr v \<longleftrightarrow> member k x = Some v"
  by (cases x) (auto split: option.splits)

lemma getitem_0_Inr:
  "py_getitem_0 x = Inr v \<longleftrightarrow>
     (\<exists>xs. x = JArr (v # xs)) \<or> (\<exists>c cs. x = JStr (c # cs) \<and> v = JStr [c])"
  by (cases x rule: py_getitem_0.cases) auto

lemma etd_path_Some:
  assumes "schema_path doc = Some d" shows "etd_path doc = Inr d"
proof -
  from assms obtain root station others where
    r: "member ''root'' doc = Some root" and
    s: "member ''station'' root = Some (JArr (station # others))" and
    e: "member ''etd'' station = Some d"
    unfolding schema_path_def
    by (auto split: option.splits jsonval.splits list.splits)
  show ?thesis
    unfolding etd_path_def
    by (simp add: getitem_str_Some [OF r] getitem_str_Some [OF s] getitem_str_Some [OF e])
qed

lemma etd_path_None:
  assumes "schema_path doc = None" shows "\<exists>ex. etd_path doc = Inl ex"
proof (cases "etd_path doc")
  case (Inl ex)
  then show ?thesis by blast
next
  case (Inr d)
  then obtain root stations station where
    r: "member ''root'' doc = Some root" and
    s: "member ''station'' root = Some stations" and
    z: "py_getitem_0 stations = Inr station" and
    e: "member ''etd'' station = Some d"
    unfolding etd_path_def
    by (auto simp: getitem_str_Inr split: sum.splits)
  from z e obtain others where "stations = JArr (station # others)"
    by (auto simp: getitem_0_Inr)
  with r s e have "schema_path doc = Some d"
    by (simp add: schema_path_def)
  with assms show ?thesis by simp
qed

lemma depList_schema:
  "depList doc = (case schema_path doc of None \<Rightarrow> JArr [] | Some d \<Rightarrow> d)"
proof (cases "schema_path doc")
  case None
  from etd_path_None [OF None] obtain ex where "etd_path doc = Inl ex" ..
  with None show ?thesis by (simp add: depList_def)
next
  case (Some d)
  from etd_path_Some [OF Some] Some show ?thesis by (simp add: depList_def)
qed

lemma minutes_string_entry:
  assumes "string_entry e"
  shows "minutes py e = Inr (entry_value (int_max_str_digits py) e)"
proof -
  from assms obtain s where m: "member ''minutes'' e = Some (JStr s)"
    unfolding string_entry_def by (auto split: option.splits jsonval.splits)
  show ?thesis
    by (simp add: minutes_def entry_value_def m getitem_str_Some [OF m] split: option.splits)
qed

lemma estimate_loop_strings:
  "list_all string_entry es \<Longrightarrow>
   estimate_loop py es minutesList =
     Inr (minutesList @ map (entry_value (int_max_str_digits py)) es)"
  by (induction es arbitrary: minutesList) (simp_all add: minutes_string_entry)

lemma dep_loop_strings:
  "list_all string_group gs \<Longrightarrow>
   dep_loop py gs minutesList =
     Inr (minutesList @ map (entry_value (int_max_str_digits py)) (concat (map entries_of gs)))"
proof (induction gs arbitrary: minutesList)
  case Nil
  then show ?case by simp
next
  case (Cons g gs)
  from Cons.prems obtain es where
    m: "member ''estimate'' g = Some (JArr es)" and es: "list_all string_entry es"
    unfolding string_group_def by (auto split: option.splits jsonval.splits)
  from Cons.prems have gs: "list_all string_group gs" by simp
  from m have eo: "entries_of g = es" by (simp add: entries_of_def)
  show ?case
    by (simp add: getitem_str_Some [OF m] estimate_loop_strings [OF es] Cons.IH [OF gs] eo)
qed

lemma collect_well_formed:
  assumes "well_formed doc"
  shows "collect py doc = Inr (map (entry_value (int_max_str_digits py)) (estimate_entries doc))"
proof -
  from assms obtain gs where d: "schema_path doc = Some (JArr gs)" and gs: "list_all string_group gs"
    unfolding well_formed_def by (auto split: option.splits jsonval.splits)
  then show ?thesis
    by (simp add: collect_def depList_schema estimate_entries_def groups_of_def dep_loop_strings)
qed

lemma collect_missing_path:
  assumes "schema_path doc = None" shows "collect py doc = Inr []"
  using assms by (simp add: collect_def depList_schema)

lemma well_formed_not_null: "well_formed doc \<Longrightarrow> doc \<noteq> JNull"
  by (auto simp: well_formed_def schema_path_def)

lemma print_resp_ok:
  assumes "verbose \<Longrightarrow> dump_raises py resp = None"
  shows "print_resp py verbose resp = Inr (if verbose then [StdoutJson resp] else [])"
  using assms by (simp add: print_resp_def)

lemma get_departures_fixture:
  assumes "testcase \<noteq> JNull"
  shows "get_departures py get origin direction testcase verbose =
    (case print_resp py verbose testcase of
       Inl ex \<Rightarrow> (Inl ex, [])
     | Inr printed \<Rightarrow>
        (case collect py testcase of
           Inl (RequestException msg) \<Rightarrow>
             (Inr None, printed @ [Stderr ''[!] Error: could not complete the request.'', Stderr msg])
         | Inl ex \<Rightarrow> (Inl ex, printed)
         | Inr xs \<Rightarrow> (Inr (Some xs), printed)))"
proof -
  have "\<And>msg. print_resp py verbose testcase \<noteq> Inl (RequestException msg)"
    subgoal for msg
      by (cases "dump_raises py testcase"; cases "the (dump_raises py testcase)")
         (auto simp: print_resp_def)
    done
  then show ?thesis
    using assms
    by (auto simp: get_departures_def try_body_def obtain_resp_def split: sum.splits py_error.splits)
qed

lemma minutes_no_request: "minutes py e \<noteq> Inl (RequestException msg)"
proof -
  have "py_getitem_str e ''minutes'' \<noteq> Inl (RequestException msg)"
    by (cases e) (auto split: option.splits)
  moreover have "\<And>v. py_int py v \<noteq> Inl (RequestException msg)"
    subgoal for v by (cases "(py, v)" rule: py_int.cases) (auto split: option.splits)
    done
  ultimately show ?thesis
    by (auto simp: minutes_def split: sum.splits if_splits)
qed

lemma estimate_loop_no_request: "estimate_loop py es acc \<noteq> Inl (RequestException msg)"
  by (induction es arbitrary: acc) (auto simp: minutes_no_request split: sum.splits)

lemma getitem_str_no_request: "py_getitem_str x k \<noteq> Inl (RequestException msg)"
  by (cases x) (auto split: option.splits)

lemma py_iter_no_request: "py_iter x \<noteq> Inl (RequestException msg)"
  by (cases x) auto

lemma dep_loop_no_request: "dep_loop py gs acc \<noteq> Inl (RequestException msg)"
  by (induction gs arbitrary: acc)
     (auto simp: estimate_loop_no_request getitem_str_no_request py_iter_no_request
       split: sum.splits)

lemma collect_no_request: "collect py doc \<noteq> Inl (RequestException msg)"
  by (auto simp: collect_def dep_loop_no_request py_iter_no_request split: sum.splits)

lemma print_resp_no_request: "print_resp py verbose resp \<noteq> Inl (RequestException msg)"
  by (cases "dump_raises py resp"; cases "the (dump_raises py resp)")
     (auto simp: print_resp_def)

lemma is_digit_simps:
  assumes "is_digit c"
  shows "\<not> int_space c" "c \<noteq> CHR ''+''" "c \<noteq> CHR ''-''" "c \<noteq> CHR ''_''"
  using assms by (auto simp: is_digit_def int_space_def)

lemma no_double_underscore: "list_all is_digit ds \<Longrightarrow> \<not> double_underscore ds"
  by (induction ds rule: double_underscore.induct) (auto simp: is_digit_simps)

lemma int_digits_digits:
  assumes "digits ds"
  shows "int_digits lim ds = (if digits_allowed lim (length ds) then Some (dec_value ds) else None)"
proof -
  have all: "\<forall>c \<in> set ds. is_digit c" and ne: "ds \<noteq> []"
    using assms by (auto simp: digits_def list_all_iff)
  have tk: "takeWhile (\<lambda>c. is_digit c \<or> c = CHR ''_'') ds = ds"
    and dr: "dropWhile (\<lambda>c. is_digit c \<or> c = CHR ''_'') ds = []"
    and fl: "filter is_digit ds = ds"
    using all by auto
  have "is_digit (hd ds)" "is_digit (last ds)"
    using all ne by auto
  then have ends: "hd ds \<noteq> CHR ''_''" "last ds \<noteq> CHR ''_''"
    by (auto simp: is_digit_simps)
  have "\<not> double_underscore ds"
    using assms by (simp add: digits_def no_double_underscore)
  with ne ends show ?thesis
    unfolding int_digits_def Let_def tk dr fl by simp
qed

lemma py_int_str_digits:
  assumes "digits ds"
  shows "py_int_str lim ds = (if digits_allowed lim (length ds) then Some (dec_value ds) else None)"
proof -
  from assms obtain c r where ds: "ds = c # r" and c: "is_digit c"
    by (cases ds) (auto simp: digits_def)
  have "dropWhile int_space ds = ds"
    using c by (simp add: ds is_digit_simps)
  moreover have "int_sign ds = (1, ds)"
    using c by (simp add: ds is_digit_simps)
  ultimately show ?thesis
    by (simp add: py_int_str_def int_digits_digits [OF assms])
qed

lemma py_int_str_minus_digits:
  assumes "digits ds"
  shows "py_int_str lim (CHR ''-'' # ds) =
    (if digits_allowed lim (length ds) then Some (- dec_value ds) else None)"
proof -
  have "dropWhile int_space (CHR ''-'' # ds) = CHR ''-'' # ds"
    by (simp add: int_space_def)
  then show ?thesis
    by (simp add: py_int_str_def int_digits_digits [OF assms])
qed

lemma int_digits_no_digit:
  assumes "\<forall>c \<in> set t. \<not> is_digit c" shows "int_digits lim t = None"
proof (cases t)
  case Nil
  then show ?thesis by (simp add: int_digits_def)
next
  case (Cons c r)
  with assms have "\<not> is_digit c" by simp
  then show ?thesis
    by (simp add: int_digits_def Cons)
qed

lemma int_sign_set: "int_sign t = (sg, u) \<Longrightarrow> set u \<subseteq> set t"
  by (cases t) (auto split: if_splits)

lemma py_int_str_no_digit:
  assumes "\<forall>c \<in> set s. \<not> is_digit c" shows "py_int_str lim s = None"
proof -
  obtain sg u where su: "int_sign (dropWhile int_space s) = (sg, u)"
    by (cases "int_sign (dropWhile int_space s)")
  have "set u \<subseteq> set s"
    using int_sign_set [OF su] set_dropWhileD [of _ int_space s] by blast
  with assms have "\<forall>c \<in> set u. \<not> is_digit c" by blast
  then show ?thesis
    by (simp add: py_int_str_def su int_digits_no_digit)
qed

lemma http_requests_append: "http_requests (xs @ ys) = http_requests xs @ http_requests ys"
  by (induction xs rule: http_requests.induct) auto

lemma fst_get_departures_well_formed:
  assumes "well_formed doc" and "verbose \<Longrightarrow> dump_raises py doc = None"
  shows "fst (get_departures py get origin direction doc verbose) =
    Inr (Some (map (entry_value (int_max_str_digits py)) (estimate_entries doc)))"
  by (simp add: get_departures_fixture [OF well_formed_not_null [OF assms(1)]]
      print_resp_ok [OF assms(2)] collect_well_formed [OF assms(1)])

lemma length_concat_sum: "length (concat xss) = (\<Sum>xs\<leftarrow>xss. length xs)"
  by (induction xss) auto

lemma fixture_simps:
  "schema_path (fixture gs) = Some (JArr (map group gs))"
  "member ''estimate'' (group vs) = Some (JArr (map entry vs))"
  "member ''minutes'' (entry v) = Some v"
  by (simp_all add: schema_path_def fixture_def group_def entry_def)

lemma estimate_entries_fixture:
  "estimate_entries (fixture gs) = map entry (concat gs)"
  by (simp add: estimate_entries_def groups_of_def entries_of_def fixture_simps comp_def map_concat)

lemma string_entry_entry: "string_entry (entry v) \<longleftrightarrow> (\<exists>s. v = JStr s)"
  by (cases v) (simp_all add: string_entry_def fixture_simps)

lemma well_formed_fixture:
  "well_formed (fixture gs) \<longleftrightarrow> (\<forall>vs \<in> set gs. \<forall>v \<in> set vs. \<exists>s. v = JStr s)"
  by (simp add: well_formed_def string_group_def fixture_simps list_all_iff string_entry_entry)

lemma fixture_not_null: "fixture gs \<noteq> JNull"
  by (simp add: fixture_def)

lemma digits_allowed_small: "n \<le> 640 \<Longrightarrow> digits_allowed lim n"
  by (simp add: digits_allowed_def)

lemma digits_1: "is_digit c \<Longrightarrow> digits [c]"
  by (simp add: digits_def)

lemma py_int_str_3: "py_int_str lim ''3'' = Some 3"
  by (simp add: py_int_str_digits digits_def is_digit_def digits_allowed_small dec_value_def digit_val_def)

lemma py_int_str_7: "py_int_str lim ''7'' = Some 7"
  by (simp add: py_int_str_digits digits_def is_digit_def digits_allowed_small dec_value_def digit_val_def)

lemma py_int_str_Leaving: "py_int_str lim ''Leaving'' = None"
  by (simp add: py_int_str_no_digit is_digit_def)

lemma py_int_str_4: "py_int_str lim ''4'' = Some 4"
  by (simp add: py_int_str_digits digits_def is_digit_def digits_allowed_small dec_value_def digit_val_def)

lemma entry_value_string:
  "member ''minutes'' e = Some (JStr s) \<Longrightarrow>
   entry_value lim e = (case py_int_str lim s of None \<Rightarrow> 0 | Some n \<Rightarrow> n)"
  by (simp add: entry_value_def)

lemma nth_get_departures_well_formed:
  assumes "well_formed doc" and "verbose \<Longrightarrow> dump_raises py doc = None"
    and "i < length (estimate_entries doc)"
    and "member ''minutes'' (estimate_entries doc ! i) = Some (JStr s)"
  shows "\<exists>xs. fst (get_departures py get origin direction doc verbose) = Inr (Some xs)
    \<and> length xs = length (estimate_entries doc)
    \<and> xs ! i = (case py_int_str (int_max_str_digits py) s of None \<Rightarrow> 0 | Some n \<Rightarrow> n)"
  using assms(3)
  by (simp add: fst_get_departures_well_formed [OF assms(1,2)] entry_value_string [OF assms(4)])

lemma estimate_entries_3_7_leaving:
  "estimate_entries fixture_3_7_leaving =
     [entry (JStr ''3''), entry (JStr ''7''), entry (JStr ''Leaving'')]"
  by (simp add: fixture_3_7_leaving_def estimate_entries_fixture)

lemma well_formed_3_7_leaving: "well_formed fixture_3_7_leaving"
  by (simp add: fixture_3_7_leaving_def well_formed_fixture)

lemma values_3_7_leaving:
  "map (entry_value lim) (estimate_entries fixture_3_7_leaving) = [3, 7, 0]"
  by (simp add: estimate_entries_3_7_leaving entry_value_def fixture_simps
      py_int_str_3 py_int_str_7 py_int_str_Leaving)

lemma dump_3_7_leaving: "dump_raises (stack_bound 993) fixture_3_7_leaving = None"
  by (simp add: stack_bound_def fixture_3_7_leaving_def fixture_def group_def entry_def)

lemma depth_nested_list: "depth (nested_list n) = n"
  by (induction n) simp_all

lemma nested_list_Suc: "0 < n \<Longrightarrow> \<exists>x. nested_list n = JArr [x]"
  by (cases n) simp_all

lemma schema_path_JArr: "schema_path (JArr xs) = None"
  by (simp add: schema_path_def)

lemma same_result_when_dump_succeeds:
  assumes "testcase \<noteq> JNull \<Longrightarrow> dump_raises py testcase = None"
    and "\<And>r doc. testcase = JNull \<Longrightarrow> get bartURL (reqParams origin direction) = Inr r \<Longrightarrow>
      raise_for_status r = None \<Longrightarrow> json r = Inr doc \<Longrightarrow> dump_raises py doc = None"
  shows "fst (get_departures py get origin direction testcase True) =
         fst (get_departures py get origin direction testcase False)"
  using assms
  by (auto simp: get_departures_def try_body_def obtain_resp_def print_resp_def
      split: sum.splits option.splits py_error.splits prod.splits)

section \<open>Properties of the departure fetcher\<close>

text \<open>
  C1. For a well-formed fixture document with N estimate entries over all its destination
  groups, \<^verbatim>\<open>get_departures\<close> returns a list of exactly N integers, one for each estimate
  entry, in traversal order: group after group, and entry after entry within a group.
  With \<open>verbose\<close> set, this is so when the dump of line 85 does not raise.
\<close>

theorem get_departures_one_per_entry:
  assumes "well_formed doc" and "verbose \<Longrightarrow> dump_raises py doc = None"
  shows "\<exists>xs. fst (get_departures py get origin direction doc verbose) = Inr (Some xs)
    \<and> xs = map (entry_value (int_max_str_digits py)) (estimate_entries doc)
    \<and> length xs = (\<Sum>g\<leftarrow>groups_of doc. length (entries_of g))"
  by (simp add: fst_get_departures_well_formed [OF assms] estimate_entries_def
      length_concat_sum comp_def)

theorem get_departures_one_per_entry_witness:
  "well_formed fixture_3_7_leaving
   \<and> dump_raises (stack_bound 993) fixture_3_7_leaving = None
   \<and> (\<exists>xs. fst (get_departures (stack_bound 993) offline ''PLZA'' ''s'' fixture_3_7_leaving True)
          = Inr (Some xs)
        \<and> xs = [3, 7, 0] \<and> length xs = 3)"
  using well_formed_3_7_leaving dump_3_7_leaving values_3_7_leaving [of 0]
    get_departures_one_per_entry [where doc = fixture_3_7_leaving and verbose = True
      and py = "stack_bound 993" and get = offline and origin = "''PLZA''"
      and direction = "''s''", OF well_formed_3_7_leaving dump_3_7_leaving]
  by (auto simp: stack_bound_def)

text \<open>
  C2. For every estimate entry, \<^verbatim>\<open>get_departures\<close> reads the entry's \<open>minutes\<close> string as
  an integer: a numeric string such as \<open>12\<close> gives the integer 12 (a string of digits gives
  its decimal value, when the interpreter's digit limit admits its length), a string that
  is not numeric (such as \<open>Leaving\<close>) gives exactly 0; and the fixture with the two groups
  \<open>3, 7\<close> and \<open>Leaving\<close> gives the list 3, 7, 0.
\<close>

theorem minutes_parsed_as_integer:
  assumes "well_formed doc" and "verbose \<Longrightarrow> dump_raises py doc = None"
    and "i < length (estimate_entries doc)"
    and "member ''minutes'' (estimate_entries doc ! i) = Some (JStr s)"
  shows "(\<exists>xs. fst (get_departures py get origin direction doc verbose) = Inr (Some xs)
      \<and> length xs = length (estimate_entries doc)
      \<and> (digits s \<and> digits_allowed (int_max_str_digits py) (length s)
            \<longrightarrow> xs ! i = dec_value s)
      \<and> (py_int_str (int_max_str_digits py) s = None \<longrightarrow> xs ! i = 0)
      \<and> (list_all (\<lambda>c. \<not> is_digit c) s \<longrightarrow> xs ! i = 0))
    \<and> digits ''12'' \<and> digits_allowed (int_max_str_digits py) (length ''12'')
    \<and> dec_value ''12'' = 12
    \<and> fst (get_departures py get origin direction fixture_3_7_leaving False)
        = Inr (Some [3, 7, 0])"
proof -
  from nth_get_departures_well_formed [OF assms] obtain xs where
    xs: "fst (get_departures py get origin direction doc verbose) = Inr (Some xs)"
      "length xs = length (estimate_entries doc)"
      "xs ! i = (case py_int_str (int_max_str_digits py) s of None \<Rightarrow> 0 | Some n \<Rightarrow> n)"
    by blast
  have "digits s \<and> digits_allowed (int_max_str_digits py) (length s) \<longrightarrow> xs ! i = dec_value s"
    by (simp add: xs py_int_str_digits)
  moreover have "py_int_str (int_max_str_digits py) s = None \<longrightarrow> xs ! i = 0"
    by (simp add: xs)
  moreover have "list_all (\<lambda>c. \<not> is_digit c) s \<longrightarrow> xs ! i = 0"
    by (simp add: xs py_int_str_no_digit list_all_iff)
  moreover have "dec_value ''12'' = 12"
    by (simp add: dec_value_def digit_val_def)
  moreover have "digits ''12''"
    by (simp add: digits_def is_digit_def)
  moreover have "digits_allowed (int_max_str_digits py) (length ''12'')"
    by (simp add: digits_allowed_small)
  moreover have "fst (get_departures py get origin direction fixture_3_7_leaving False)
        = Inr (Some [3, 7, 0])"
    by (simp add: fst_get_departures_well_formed [OF well_formed_3_7_leaving] values_3_7_leaving)
  ultimately show ?thesis
    using xs(1,2) by simp
qed

theorem minutes_parsed_as_integer_witness:
  "well_formed fixture_3_7_leaving
   \<and> dump_raises (stack_bound 993) fixture_3_7_leaving = None
   \<and> (1::nat) < length (estimate_entries fixture_3_7_leaving)
   \<and> member ''minutes'' (estimate_entries fixture_3_7_leaving ! 1) = Some (JStr ''7'')
   \<and> digits ''7'' \<and> digits_allowed (int_max_str_digits (stack_bound 993)) (length ''7'')
   \<and> (2::nat) < length (estimate_entries fixture_3_7_leaving)
   \<and> member ''minutes'' (estimate_entries fixture_3_7_leaving ! 2) = Some (JStr ''Leaving'')
   \<and> py_int_str (int_max_str_digits (stack_bound 993)) ''Leaving'' = None
   \<and> list_all (\<lambda>c. \<not> is_digit c) ''Leaving''
   \<and> (\<exists>xs. fst (get_departures (stack_bound 993) offline ''PLZA'' ''s'' fixture_3_7_leaving True)
          = Inr (Some xs)
        \<and> length xs = 3 \<and> xs ! 1 = 7 \<and> xs ! 2 = 0)"
proof -
  note wf = well_formed_3_7_leaving
  have i: "(1::nat) < length (estimate_entries fixture_3_7_leaving)"
    and j: "(2::nat) < length (estimate_entries fixture_3_7_leaving)"
    by (simp_all add: estimate_entries_3_7_leaving)
  have m: "member ''minutes'' (estimate_entries fixture_3_7_leaving ! 1) = Some (JStr ''7'')"
    and n: "member ''minutes'' (estimate_entries fixture_3_7_leaving ! 2) = Some (JStr ''Leaving'')"
    by (simp_all add: estimate_entries_3_7_leaving fixture_simps)
  have d: "digits ''7''"
    by (simp add: digits_def is_digit_def)
  have a: "digits_allowed (int_max_str_digits (stack_bound 993)) (length ''7'')"
    by (simp add: digits_allowed_small)
  have v: "dec_value ''7'' = 7"
    by (simp add: dec_value_def digit_val_def)
  have l: "list_all (\<lambda>c. \<not> is_digit c) ''Leaving''"
    by (simp add: is_digit_def)
  from minutes_parsed_as_integer [where doc = fixture_3_7_leaving and verbose = True
      and py = "stack_bound 993" and i = 1 and s = "''7''" and get = offline
      and origin = "''PLZA''" and direction = "''s''", OF wf dump_3_7_leaving i m]
    minutes_parsed_as_integer [where doc = fixture_3_7_leaving and verbose = True
      and py = "stack_bound 993" and i = 2 and s = "''Leaving''" and get = offline
      and origin = "''PLZA''" and direction = "''s''", OF wf dump_3_7_leaving j n]
    d a v l
  have "\<exists>xs. fst (get_departures (stack_bound 993) offline ''PLZA'' ''s'' fixture_3_7_leaving True)
          = Inr (Some xs)
        \<and> length xs = 3 \<and> xs ! 1 = 7 \<and> xs ! 2 = 0"
    by (auto simp: estimate_entries_3_7_leaving)
  with wf dump_3_7_leaving i j m n d a l py_int_str_Leaving show ?thesis by blast
qed

text \<open>
  C3. For every transport failure on the live path (a connection error or a timeout raised
  by \<^verbatim>\<open>requests.get\<close>, or a status that \<^verbatim>\<open>raise_for_status\<close> rejects), \<^verbatim>\<open>get_departures\<close>
  catches the failure, writes a diagnostic to the error stream and returns \<^verbatim>\<open>None\<close>: not
  the empty list, and no exception leaves the function.
\<close>

theorem transport_failure_gives_None:
  assumes "get bartURL (reqParams origin direction) = Inl (RequestException msg)
    \<or> (\<exists>r. get bartURL (reqParams origin direction) = Inr r \<and> raise_for_status r = Some msg)"
  shows "get_departures py get origin direction JNull verbose =
    (Inr None,
     [HttpGet bartURL (reqParams origin direction),
      Stderr ''[!] Error: could not complete the request.'',
      Stderr msg])"
  using assms
  by (auto simp: get_departures_def try_body_def obtain_resp_def)

theorem transport_failure_gives_None_witness:
  "(offline bartURL (reqParams ''PLZA'' ''s'') = Inl (RequestException ''Connection refused'')
    \<or> (\<exists>r. offline bartURL (reqParams ''PLZA'' ''s'') = Inr r
          \<and> raise_for_status r = Some ''Connection refused''))
   \<and> fst (get_departures (stack_bound 993) offline ''PLZA'' ''s'' JNull False) = Inr None
   \<and> fst (get_departures (stack_bound 993) offline ''PLZA'' ''s'' JNull False) \<noteq> Inr (Some [])
   \<and> (\<exists>r. refusing ''404 Client Error'' bartURL (reqParams ''RICH'' ''n'') = Inr r
          \<and> raise_for_status r = Some ''404 Client Error'')
   \<and> get_departures (stack_bound 993) (refusing ''404 Client Error'') ''RICH'' ''n'' JNull True =
      (Inr None,
       [HttpGet bartURL (reqParams ''RICH'' ''n''),
        Stderr ''[!] Error: could not complete the request.'',
        Stderr ''404 Client Error''])"
proof -
  have a: "offline bartURL (reqParams ''PLZA'' ''s'') = Inl (RequestException ''Connection refused'')"
    by (simp add: offline_def)
  have b: "\<exists>r. refusing ''404 Client Error'' bartURL (reqParams ''RICH'' ''n'') = Inr r
          \<and> raise_for_status r = Some ''404 Client Error''"
    by (simp add: refusing_def)
  from a have a': "offline bartURL (reqParams ''PLZA'' ''s'') = Inl (RequestException ''Connection refused'')
    \<or> (\<exists>r. offline bartURL (reqParams ''PLZA'' ''s'') = Inr r
          \<and> raise_for_status r = Some ''Connection refused'')" ..
  from b have b': "refusing ''404 Client Error'' bartURL (reqParams ''RICH'' ''n'')
      = Inl (RequestException ''404 Client Error'')
    \<or> (\<exists>r. refusing ''404 Client Error'' bartURL (reqParams ''RICH'' ''n'') = Inr r
          \<and> raise_for_status r = Some ''404 Client Error'')" ..
  show ?thesis
    using a' b
      transport_failure_gives_None [where get = offline and origin = "''PLZA''"
        and direction = "''s''" and msg = "''Connection refused''" and verbose = False
        and py = "stack_bound 993", OF a']
      transport_failure_gives_None [where get = "refusing ''404 Client Error''"
        and origin = "''RICH''" and direction = "''n''" and msg = "''404 Client Error''"
        and verbose = True and py = "stack_bound 993", OF b']
    by simp
qed

text \<open>
  C4. For every fixture document in which the schema path \<open>root/station[0]/etd\<close> is
  missing or cannot be followed (such as the document with an empty \<open>root\<close> object),
  \<^verbatim>\<open>get_departures\<close> returns the empty list: neither \<^verbatim>\<open>None\<close> nor an exception. A fixture
  is supplied when \<open>testcase\<close> is not \<^verbatim>\<open>None\<close> (line 61); with \<open>verbose\<close> set, this is so
  when the dump of line 85 does not raise.
\<close>

theorem missing_path_gives_empty_list:
  assumes "testcase \<noteq> JNull" and "schema_path testcase = None"
    and "verbose \<Longrightarrow> dump_raises py testcase = None"
  shows "fst (get_departures py get origin direction testcase verbose) = Inr (Some [])"
  by (simp add: get_departures_fixture [OF assms(1)] print_resp_ok [OF assms(3)]
      collect_missing_path [OF assms(2)])

theorem missing_path_gives_empty_list_witness:
  "fixture_closed \<noteq> JNull \<and> schema_path fixture_closed = None
   \<and> dump_raises (stack_bound 993) fixture_closed = None
   \<and> fst (get_departures (stack_bound 993) offline ''PLZA'' ''s'' fixture_closed True)
       = Inr (Some [])
   \<and> fst (get_departures (stack_bound 993) offline ''PLZA'' ''s'' fixture_closed True)
       \<noteq> Inr None"
proof -
  have a: "fixture_closed \<noteq> JNull"
    by (simp add: fixture_closed_def)
  have b: "schema_path fixture_closed = None"
    by (simp add: fixture_closed_def schema_path_def)
  have c: "dump_raises (stack_bound 993) fixture_closed = None"
    by (simp add: fixture_closed_def stack_bound_def)
  from a b c missing_path_gives_empty_list [where testcase = fixture_closed and verbose = True
      and py = "stack_bound 993" and get = offline and origin = "''PLZA''"
      and direction = "''s''", OF a b c]
  show ?thesis by simp
qed

text \<open>
  C5. The property: for every fixture document, also one whose \<open>minutes\<close> value is null, no
  exception leaves \<^verbatim>\<open>get_departures\<close>, and a malformed \<open>minutes\<close> value gives 0. The
  function does not meet it: on the fixture whose second entry has a null for \<open>minutes\<close>,
  \<^verbatim>\<open>int\<close> raises a \<^verbatim>\<open>TypeError\<close>, the handler of line 99 catches a \<^verbatim>\<open>ValueError\<close> only, and
  the \<^verbatim>\<open>TypeError\<close> leaves the function, where the docstring promises \<^verbatim>\<open>None\<close> on an
  error.
\<close>

theorem null_minutes_raises_TypeError:
  "fst (get_departures py get origin direction fixture_null_minutes False) = Inl TypeError"
proof -
  have n: "fixture_null_minutes \<noteq> JNull"
    by (simp add: fixture_null_minutes_def fixture_not_null)
  have "collect py fixture_null_minutes = Inl TypeError"
    by (simp add: collect_def depList_schema fixture_null_minutes_def fixture_simps
        getitem_str_Some [OF fixture_simps(2)] getitem_str_Some [OF fixture_simps(3)]
        minutes_def py_int_str_4)
  then show ?thesis
    by (simp add: get_departures_fixture [OF n] print_resp_def)
qed

text \<open>
  C6. Every call of \<^verbatim>\<open>get_departures\<close> on the live path (no fixture) issues one GET request,
  to the provider's URL, with exactly the query parameters \<open>cmd=etd\<close>, \<open>orig\<close> the origin
  of the caller, \<open>dir\<close> the direction of the caller, \<open>key\<close> the fixed key and \<open>json=y\<close>;
  the command is \<open>etd\<close> whatever the inputs.
\<close>

theorem live_request_parameters:
  "http_requests (snd (get_departures py get origin direction JNull verbose)) =
     [(''http://api.bart.gov/api/etd.aspx'',
       [(''cmd'', ''etd''),
        (''orig'', origin),
        (''dir'', direction),
        (''key'', ''MW9S-E7SL-26DU-VV8V''),
        (''json'', ''y'')])]"
  by (auto simp: get_departures_def try_body_def obtain_resp_def print_resp_def bartURL_def
      reqParams_def http_requests_append
      split: sum.splits option.splits py_error.splits prod.splits)

text \<open>
  C7. Two calls of \<^verbatim>\<open>get_departures\<close> with the same fixture document give the same list:
  on the fixture path the result and the output are a function of the fixture and of
  \<open>verbose\<close> alone, whatever the state of the network at either call (and whatever the
  origin and direction).
\<close>

theorem fixture_result_independent_of_world:
  assumes "testcase \<noteq> JNull"
  shows "get_departures py get1 origin1 direction1 testcase verbose =
         get_departures py get2 origin2 direction2 testcase verbose"
  by (simp add: get_departures_fixture [OF assms])

theorem fixture_result_independent_of_world_witness:
  "fixture_3_7_leaving \<noteq> JNull
   \<and> get_departures (stack_bound 993) offline ''PLZA'' ''s'' fixture_3_7_leaving False =
     get_departures (stack_bound 993) (answering fixture_closed) ''RICH'' ''n''
       fixture_3_7_leaving False
   \<and> fst (get_departures (stack_bound 993) offline ''PLZA'' ''s'' fixture_3_7_leaving False)
       = Inr (Some [3, 7, 0])"
proof -
  have a: "fixture_3_7_leaving \<noteq> JNull"
    by (simp add: fixture_3_7_leaving_def fixture_not_null)
  have "fst (get_departures (stack_bound 993) offline ''PLZA'' ''s'' fixture_3_7_leaving False)
       = Inr (Some [3, 7, 0])"
    by (simp add: fst_get_departures_well_formed [OF well_formed_3_7_leaving] values_3_7_leaving)
  with a fixture_result_independent_of_world [where testcase = fixture_3_7_leaving
      and py = "stack_bound 993" and verbose = False
      and ?get1.0 = offline and ?origin1.0 = "''PLZA''" and ?direction1.0 = "''s''"
      and ?get2.0 = "answering fixture_closed" and ?origin2.0 = "''RICH''"
      and ?direction2.0 = "''n''", OF a]
  show ?thesis by simp
qed

text \<open>
  C8. The property: the value returned by \<^verbatim>\<open>get_departures\<close> is the same with \<open>verbose\<close>
  true and false. The function does not meet it: the dump of line 85 stands inside the
  \<^verbatim>\<open>try\<close> whose only handler is for \<^verbatim>\<open>RequestException\<close>, so on a document nested deeper
  than the stack allows, the call with \<open>verbose\<close> raises a \<^verbatim>\<open>RecursionError\<close> where
  the call without it returns a list.
\<close>

theorem verbose_dump_failure_changes_result:
  "fst (get_departures (stack_bound 993) offline ''PLZA'' ''s'' (nested_list 994) False)
     = Inr (Some [])
   \<and> fst (get_departures (stack_bound 993) offline ''PLZA'' ''s'' (nested_list 994) True)
     = Inl RecursionError"
proof -
  obtain x where x: "nested_list 994 = JArr [x]"
    using nested_list_Suc [of 994] by auto
  have n: "nested_list 994 \<noteq> JNull"
    by (simp add: x)
  have c: "collect (stack_bound 993) (nested_list 994) = Inr []"
    by (simp add: x collect_missing_path schema_path_JArr)
  have d: "dump_raises (stack_bound 993) (nested_list 994) = Some DumpRecursionError"
    by (simp add: stack_bound_def depth_nested_list)
  show ?thesis
    by (simp add: get_departures_fixture [OF n] print_resp_def c d)
qed

text \<open>
  C9. When a fixture is supplied and \<^verbatim>\<open>get_departures\<close> returns, the result is a list and
  never \<^verbatim>\<open>None\<close>: no request is issued, so no request exception can be caught.
\<close>

theorem fixture_never_gives_None:
  assumes "testcase \<noteq> JNull"
    and "fst (get_departures py get origin direction testcase verbose) = Inr r"
  shows "(\<exists>xs. r = Some xs)
    \<and> http_requests (snd (get_departures py get origin direction testcase verbose)) = []"
  using assms(2) collect_no_request [of py testcase]
  by (auto simp: get_departures_fixture [OF assms(1)] print_resp_def
      split: sum.splits py_error.splits option.splits if_splits)

theorem fixture_never_gives_None_witness:
  "fixture_closed \<noteq> JNull
   \<and> fst (get_departures (stack_bound 993) (answering fixture_3_7_leaving) ''PLZA'' ''s''
        fixture_closed True) = Inr (Some [])
   \<and> (\<exists>xs. Some [] = Some (xs :: int list))
   \<and> http_requests (snd (get_departures (stack_bound 993) (answering fixture_3_7_leaving)
        ''PLZA'' ''s'' fixture_closed True)) = []"
proof -
  have a: "fixture_closed \<noteq> JNull"
    by (simp add: fixture_closed_def)
  have "schema_path fixture_closed = None"
    by (simp add: fixture_closed_def schema_path_def)
  then have "collect (stack_bound 993) fixture_closed = Inr []"
    by (simp add: collect_missing_path)
  moreover have "dump_raises (stack_bound 993) fixture_closed = None"
    by (simp add: fixture_closed_def stack_bound_def)
  ultimately have b: "fst (get_departures (stack_bound 993) (answering fixture_3_7_leaving)
      ''PLZA'' ''s'' fixture_closed True) = Inr (Some [])"
    by (simp add: get_departures_fixture [OF a] print_resp_def)
  from a b fixture_never_gives_None [OF a b] show ?thesis by simp
qed

text \<open>
  C10. For an estimate entry whose \<open>minutes\<close> field is a negative numeric string such as
  \<open>-5\<close>, the output element is the negative integer: the parsed value is neither checked
  against a range nor clamped (the interpreter's digit limit admitting the length of the
  string).
\<close>

theorem negative_minutes_not_clamped:
  assumes "well_formed doc" and "verbose \<Longrightarrow> dump_raises py doc = None"
    and "i < length (estimate_entries doc)"
    and "member ''minutes'' (estimate_entries doc ! i) = Some (JStr (CHR ''-'' # ds))"
    and "digits ds" and "digits_allowed (int_max_str_digits py) (length ds)"
  shows "\<exists>xs. fst (get_departures py get origin direction doc verbose) = Inr (Some xs)
      \<and> length xs = length (estimate_entries doc)
      \<and> xs ! i = - dec_value ds"
  using nth_get_departures_well_formed [where get = get and origin = origin
      and direction = direction, OF assms(1,2,3,4)] assms(6)
  by (simp add: py_int_str_minus_digits [OF assms(5)])

theorem negative_minutes_not_clamped_witness:
  "well_formed fixture_minus_5
   \<and> dump_raises (stack_bound 993) fixture_minus_5 = None
   \<and> (1::nat) < length (estimate_entries fixture_minus_5)
   \<and> member ''minutes'' (estimate_entries fixture_minus_5 ! 1) = Some (JStr ''-5'')
   \<and> digits ''5'' \<and> digits_allowed (int_max_str_digits (stack_bound 993)) (length ''5'')
   \<and> (\<exists>xs. fst (get_departures (stack_bound 993) offline ''PLZA'' ''s'' fixture_minus_5 True)
          = Inr (Some xs)
        \<and> length xs = 2 \<and> xs ! 1 = - 5)"
proof -
  have es: "estimate_entries fixture_minus_5 = [entry (JStr ''12''), entry (JStr ''-5'')]"
    by (simp add: fixture_minus_5_def estimate_entries_fixture)
  have wf: "well_formed fixture_minus_5"
    by (simp add: fixture_minus_5_def well_formed_fixture)
  have du: "dump_raises (stack_bound 993) fixture_minus_5 = None"
    by (simp add: stack_bound_def fixture_minus_5_def fixture_def group_def entry_def)
  have i: "(1::nat) < length (estimate_entries fixture_minus_5)"
    by (simp add: es)
  have m: "member ''minutes'' (estimate_entries fixture_minus_5 ! 1) = Some (JStr (CHR ''-'' # ''5''))"
    by (simp add: es fixture_simps)
  have d: "digits ''5''"
    by (simp add: digits_def is_digit_def)
  have a: "digits_allowed (int_max_str_digits (stack_bound 993)) (length ''5'')"
    by (simp add: digits_allowed_small)
  have v: "dec_value ''5'' = 5"
    by (simp add: dec_value_def digit_val_def)
  from negative_minutes_not_clamped [where doc = fixture_minus_5 and verbose = True
      and py = "stack_bound 993" and i = 1 and ds = "''5''" and get = offline
      and origin = "''PLZA''" and direction = "''s''", OF wf du i m d a] v
  have "\<exists>xs. fst (get_departures (stack_bound 993) offline ''PLZA'' ''s'' fixture_minus_5 True)
          = Inr (Some xs)
        \<and> length xs = 2 \<and> xs ! 1 = - 5"
    by (auto simp: es)
  with wf du i m d a show ?thesis by simp
qed

end
